theory Spec2Isabelle
  imports Main "HOL-Library.Word"
begin

section \<open>JavaScript strings\<close>

text \<open>
  A JavaScript string is a sequence of UTF-16 code units: \<open>length\<close> counts units,
  \<open>slice\<close> cuts between units, and a regular expression without the \<open>u\<close> flag
  matches unit by unit. The horizontal ellipsis U+2026 that \<open>x2iExec\<close> appends is one
  unit. ASCII literals of the source are written through \<open>js\<close>.
\<close>

type_synonym jschar = "16 word"
type_synonym jsstring = "jschar list"

definition js :: "string \<Rightarrow> jsstring" where
  "js s = map (\<lambda>c. of_nat (of_char c)) s"

definition space :: jschar where
  "space = 0x20"

definition newline :: jschar where
  "newline = 0x0A"

definition ellipsis :: jschar where
  "ellipsis = 0x2026"

text \<open>\<open>startsWith p s\<close>: the string \<open>s\<close> begins with \<open>p\<close>.\<close>

fun startsWith :: "jsstring \<Rightarrow> jsstring \<Rightarrow> bool" where
  "startsWith [] s = True"
| "startsWith (p # ps) [] = False"
| "startsWith (p # ps) (c # cs) = (p = c \<and> startsWith ps cs)"

text \<open>\<open>String.prototype.includes\<close>: \<open>sub\<close> occurs somewhere in \<open>s\<close>.\<close>

fun js_includes :: "jsstring \<Rightarrow> jsstring \<Rightarrow> bool" where
  "js_includes [] sub = (sub = [])"
| "js_includes (c # cs) sub = (startsWith sub (c # cs) \<or> js_includes cs sub)"

text \<open>\<open>Array.prototype.join\<close> on an array of strings.\<close>

fun js_join :: "jsstring \<Rightarrow> jsstring list \<Rightarrow> jsstring" where
  "js_join sep [] = []"
| "js_join sep [x] = x"
| "js_join sep (x # y # ys) = x @ sep @ js_join sep (y # ys)"

text \<open>
  \<open>String.prototype.split\<close> with a separator of one unit. The empty string splits
  into one empty token, never into no token.
\<close>

fun js_split :: "jschar \<Rightarrow> jsstring \<Rightarrow> jsstring list" where
  "js_split d [] = [[]]"
| "js_split d (c # cs) =
     (if c = d then [] # js_split d cs
      else (case js_split d cs of
              [] \<Rightarrow> [[c]]
            | t # ts \<Rightarrow> (c # t) # ts))"

text \<open>
  \<open>String.prototype.slice(b, e)\<close>: a negative index counts from the end, and both
  indices are clamped to the string.
\<close>

definition js_slice :: "jsstring \<Rightarrow> int \<Rightarrow> int \<Rightarrow> jsstring" where
  "js_slice s b e =
     (let len = int (length s);
          from = (if b < 0 then max (len + b) 0 else min b len);
          to = (if e < 0 then max (len + e) 0 else min e len)
      in take (nat (max (to - from) 0)) (drop (nat from) s))"

text \<open>
  The character classes of the regular expression in \<open>command\<close>: \<open>\S\<close> is the
  complement of \<open>isWhiteSpace\<close> (white space and line terminators of ECMAScript), and
  \<open>.\<close> is the complement of \<open>isLineTerminator\<close>.
\<close>

definition isWhiteSpace :: "jschar \<Rightarrow> bool" where
  "isWhiteSpace c =
     (c = 0x09 \<or> c = 0x0A \<or> c = 0x0B \<or> c = 0x0C \<or> c = 0x0D \<or> c = 0x20 \<or> c = 0xA0
      \<or> c = 0x1680 \<or> (0x2000 \<le> c \<and> c \<le> 0x200A) \<or> c = 0x2028 \<or> c = 0x2029
      \<or> c = 0x202F \<or> c = 0x205F \<or> c = 0x3000 \<or> c = 0xFEFF)"

definition isLineTerminator :: "jschar \<Rightarrow> bool" where
  "isLineTerminator c = (c = 0x0A \<or> c = 0x0D \<or> c = 0x2028 \<or> c = 0x2029)"

section \<open>Structured replies (embed/embed.js)\<close>

text \<open>A field of a structured message: its properties \<open>name\<close> and \<open>value\<close>.\<close>

record field =
  field_name :: jsstring
  field_value :: jsstring

text \<open>
  A \<open>RichEmbed\<close> (later \<open>MessageEmbed\<close>) as far as the code reads it. An absent
  property is \<open>None\<close>; the truth test of JavaScript also rejects the empty string,
  while an array, even an empty one, passes it. The property \<open>fields\<close> is written
  \<open>embed_fields\<close>.
\<close>

record embed =
  title :: "jsstring option"
  description :: "jsstring option"
  embed_fields :: "field list option"

text \<open>What \<open>channel.send\<close> accepts: a string or a structured message.\<close>

datatype response = Text jsstring | Rich embed

definition handleBody :: "embed \<Rightarrow> bool \<Rightarrow> jsstring" where
  "handleBody message headersImportant =
     (let body =
        (case embed_fields message of
           None \<Rightarrow> []
         | Some fs \<Rightarrow>
             map (\<lambda>field.
                    (let fieldString =
                       (if headersImportant
                        then js ''**'' @ field_name field @ js ''**'' @ [newline]
                        else [])
                     in fieldString @ field_value field)) fs)
      in js_join [newline, newline] body)"

definition strip :: "embed \<Rightarrow> bool \<Rightarrow> jsstring" where
  "strip message headersImportant =
     (let title_s =
        (case title message of
           None \<Rightarrow> []
         | Some t \<Rightarrow> if t \<noteq> [] then js ''**'' @ t @ js ''**'' @ [newline] else []);
          desc =
        (case description message of
           None \<Rightarrow> []
         | Some d \<Rightarrow> if d \<noteq> [] then d @ [newline] else []);
          body = handleBody message headersImportant
      in title_s @ desc @ [newline] @ body)"

text \<open>
  The function \<open>output\<close> of the source (the name is reserved here). It reads the
  flag \<open>embeds.active\<close> of the configuration, which is the first argument.
\<close>

definition embed_output :: "bool \<Rightarrow> embed \<Rightarrow> bool \<Rightarrow> response" where
  "embed_output active message headersImportant =
     (if active then Rich message else Text (strip message headersImportant))"

subsection \<open>The plain rendering, line by line\<close>

text \<open>
  The rendering the specification describes, as a list of lines joined by line breaks:
  the bold title line when there is a title, the description line when there is a
  description, a blank line, and the fields, each field a block of an optional bold header
  line and its body, two neighbouring blocks separated by one blank line. Without any
  field the body is one empty line.
\<close>

definition title_lines :: "embed \<Rightarrow> jsstring list" where
  "title_lines m =
     (case title m of
        None \<Rightarrow> []
      | Some t \<Rightarrow> if t = [] then [] else [js ''**'' @ t @ js ''**''])"

definition description_lines :: "embed \<Rightarrow> jsstring list" where
  "description_lines m =
     (case description m of
        None \<Rightarrow> []
      | Some d \<Rightarrow> if d = [] then [] else [d])"

definition field_lines :: "bool \<Rightarrow> field \<Rightarrow> jsstring list" where
  "field_lines keep f =
     (if keep then [js ''**'' @ field_name f @ js ''**''] else []) @ [field_value f]"

fun blank_separated :: "jsstring list list \<Rightarrow> jsstring list" where
  "blank_separated [] = [[]]"
| "blank_separated [b] = b"
| "blank_separated (b # c # cs) = b @ [[]] @ blank_separated (c # cs)"

definition plain_rendering :: "embed \<Rightarrow> bool \<Rightarrow> jsstring" where
  "plain_rendering m keep =
     js_join [newline]
       (title_lines m @ description_lines m @ [[]] @
        blank_separated (map (field_lines keep) (case embed_fields m of None \<Rightarrow> [] | Some fs \<Rightarrow> fs)))"

section \<open>The bot (src/conniebot.ts)\<close>

subsection \<open>Messages, configuration, events\<close>

text \<open>Identifiers of the transport are opaque; the code only compares them.\<close>

type_synonym snowflake = nat

record user =
  user_id :: snowflake
  user_bot :: bool

record message =
  message_id :: snowflake
  content :: jsstring
  author :: user
  channel :: snowflake

record reaction =
  reaction_message :: message
  emoji_name :: jsstring

text \<open>A template of the configuration: \<open>MessageEmbedOptions | string\<close>.\<close>

datatype template = Plain jsstring | Structured embed

text \<open>
  \<open>IConniebotConfig\<close>; the field \<open>help\<close> is written \<open>help_template\<close>. The
  limit \<open>timeoutChars\<close> is a number of the configuration; it is an integer here, of
  either sign.
\<close>

record IConniebotConfig =
  activeMessage :: jsstring
  database :: jsstring
  deleteEmoji :: jsstring
  help_template :: template
  owner :: jsstring
  prefix :: jsstring
  timeoutChars :: int
  timeoutMessage :: template
  token :: jsstring
  x2iFiles :: jsstring

text \<open>
  A value that is thrown, or handed to an error handler: a falsy value, or an object
  whose property \<open>message\<close> is a string or absent.
\<close>

datatype fault = Nullish | ErrorObject "jsstring option"

definition typeError :: fault where
  "typeError = ErrorObject (Some (js ''TypeError''))"

text \<open>
  What the bot does to the world outside it, in the order it does it: calls of the
  transport, of the store, of the rule engine, of the logger (its first argument, the
  tag, is recorded; the payload is not), of a command handler, and of \<open>process.exit\<close>;
  at startup the three notifications, the reading of the rule directory and of its
  files, and the parsing of the files into a matcher.
\<close>

datatype event =
    Search jsstring
  | Send snowflake response
  | React snowflake jsstring
  | AddMessage message "snowflake list"
  | GetMessageAuthor snowflake
  | MessageDelete snowflake
  | DeleteMessage snowflake
  | AddError fault
  | Exit int
  | Log jsstring
  | Call jsstring message "jsstring list"
  | UpdateActivity
  | NotifyRestart
  | NotifyNewErrors
  | Readdir
  | ReadFile
  | BuildMatcher

text \<open>
  Modelled from the spec: the two records of the store, which the source only reaches
  through \<open>this.db\<close>. Their time stamps are left out.
\<close>

record ReplyRecord =
  origin_message_id :: snowflake
  origin_channel_id :: snowflake
  origin_author_id :: snowflake
  reply_message_ids :: "snowflake list"

record ErrorRecord =
  error_text :: fault
  notified :: bool

text \<open>
  The world: the trace of events so far, the two collections of the store, the exit
  status once the process has exited, the user the client is logged in as
  (\<open>this.bot.user\<close>), and the answers of the collaborators that are not in the source:
  whether the awaited call number \<open>n\<close> fails (\<open>io_fault\<close>), the identifier the
  transport gives a message it has sent (\<open>new_id\<close>), the helper \<open>formatObject\<close>, and the
  search function of the matcher that \<open>loadKeys\<close> builds from the rule files.
\<close>

record world =
  trace :: "event list"
  replies :: "ReplyRecord list"
  errors :: "ErrorRecord list"
  exited :: "int option"
  client_user :: "user option"
  io_fault :: "nat \<Rightarrow> event \<Rightarrow> fault option"
  new_id :: "nat \<Rightarrow> snowflake"
  formatObject :: "template \<Rightarrow> user option \<Rightarrow> IConniebotConfig \<Rightarrow> template"
  x2i_matcher :: "jsstring \<Rightarrow> jsstring list"

text \<open>
  A command handler gets the message and the argument tokens; it resolves (\<open>None\<close>) or
  throws. What it does itself is part of the event \<open>Call\<close>.
\<close>

type_synonym CommandCallback = "message \<Rightarrow> jsstring list \<Rightarrow> fault option"

type_synonym ICommands = "jsstring \<Rightarrow> CommandCallback option"

record Conniebot =
  config :: IConniebotConfig
  commands :: ICommands
  x2i :: "(jsstring \<Rightarrow> jsstring list) option"
  ready :: bool

subsection \<open>Calls into the world\<close>

definition emit :: "event \<Rightarrow> world \<Rightarrow> world" where
  "emit e w = w\<lparr>trace := trace w @ [e]\<rparr>"

text \<open>
  A call that can fail (an awaited call, or one that can throw): it is recorded, and the
  world says whether it fails. The calls are numbered by the length of the trace before
  them.
\<close>

definition attempt :: "event \<Rightarrow> world \<Rightarrow> fault option \<times> world" where
  "attempt e w = (io_fault w (length (trace w)) e, emit e w)"

definition log :: "jsstring \<Rightarrow> world \<Rightarrow> world" where
  "log tag w = emit (Log tag) w"

definition channel_send :: "snowflake \<Rightarrow> response \<Rightarrow> world \<Rightarrow> (fault + snowflake) \<times> world" where
  "channel_send ch r w =
     (case attempt (Send ch r) w of
        (Some f, w1) \<Rightarrow> (Inl f, w1)
      | (None, w1) \<Rightarrow> (Inr (new_id w (length (trace w))), w1))"

text \<open>\<open>react\<close> is not awaited: the call is made and its outcome is dropped.\<close>

definition message_react :: "snowflake \<Rightarrow> jsstring \<Rightarrow> world \<Rightarrow> world" where
  "message_react mid emoji w = emit (React mid emoji) w"

definition message_delete :: "message \<Rightarrow> world \<Rightarrow> fault option \<times> world" where
  "message_delete m w = attempt (MessageDelete (message_id m)) w"

definition process_exit :: "int \<Rightarrow> world \<Rightarrow> world" where
  "process_exit code w = (emit (Exit code) w)\<lparr>exited := Some code\<rparr>"

subsection \<open>The store\<close>

text \<open>
  The class \<open>ConniebotDatabase\<close> (helper/db-management) is not among the source
  files. The specification gives a collection of reply records, looked up by the origin
  message or by any of its reply messages, and a journal of error records; a record is
  inserted, looked up and deleted as a whole. Each operation is an awaited call, so the
  world may let it fail; then the store is left as it was.
\<close>

text \<open>
  Modelled from the spec: the lookup key of a reply record, missing with
  \<open>ConniebotDatabase\<close>: the origin message or any of the reply messages.
\<close>

definition record_matches :: "snowflake \<Rightarrow> ReplyRecord \<Rightarrow> bool" where
  "record_matches mid r = (origin_message_id r = mid \<or> mid \<in> set (reply_message_ids r))"

text \<open>
  Modelled from the spec: the operation \<open>lookupRecordByMessage\<close> of the store, missing
  with \<open>ConniebotDatabase\<close>.
\<close>

definition lookupRecordByMessage :: "ReplyRecord list \<Rightarrow> snowflake \<Rightarrow> ReplyRecord option" where
  "lookupRecordByMessage rs mid = find (record_matches mid) rs"

text \<open>
  Modelled from the spec: \<open>ConniebotDatabase.addMessage\<close>, missing from the source. It
  inserts the record that ties the origin message and its author to the reply messages.
\<close>

definition addMessage :: "message \<Rightarrow> snowflake list \<Rightarrow> world \<Rightarrow> fault option \<times> world" where
  "addMessage m ids w =
     (case attempt (AddMessage m ids) w of
        (Some f, w1) \<Rightarrow> (Some f, w1)
      | (None, w1) \<Rightarrow>
          (None, w1\<lparr>replies := replies w1 @
             [\<lparr>origin_message_id = message_id m, origin_channel_id = channel m,
               origin_author_id = user_id (author m), reply_message_ids = ids\<rparr>]\<rparr>))"

text \<open>
  Modelled from the spec: \<open>ConniebotDatabase.getMessageAuthor\<close>, missing from the
  source. It answers the persisted origin author of the record found for the message, or
  nothing when there is no such record.
\<close>

definition getMessageAuthor :: "message \<Rightarrow> world \<Rightarrow> (fault + snowflake option) \<times> world" where
  "getMessageAuthor m w =
     (case attempt (GetMessageAuthor (message_id m)) w of
        (Some f, w1) \<Rightarrow> (Inl f, w1)
      | (None, w1) \<Rightarrow>
          (Inr (map_option origin_author_id (lookupRecordByMessage (replies w1) (message_id m))), w1))"

text \<open>
  Modelled from the spec: \<open>ConniebotDatabase.deleteMessage\<close>, missing from the source.
  It deletes the record found for the message; without such a record it changes nothing.
\<close>

definition deleteMessage :: "message \<Rightarrow> world \<Rightarrow> fault option \<times> world" where
  "deleteMessage m w =
     (case attempt (DeleteMessage (message_id m)) w of
        (Some f, w1) \<Rightarrow> (Some f, w1)
      | (None, w1) \<Rightarrow>
          (None, w1\<lparr>replies := filter (\<lambda>r. \<not> record_matches (message_id m) r) (replies w1)\<rparr>))"

text \<open>
  Modelled from the spec: \<open>ConniebotDatabase.addError\<close>, missing from the source. It
  appends one error record, not yet notified, to the journal.
\<close>

definition addError :: "fault \<Rightarrow> world \<Rightarrow> fault option \<times> world" where
  "addError err w =
     (case attempt (AddError err) w of
        (Some f, w1) \<Rightarrow> (Some f, w1)
      | (None, w1) \<Rightarrow>
          (None, w1\<lparr>errors := errors w1 @ [\<lparr>error_text = err, notified = False\<rparr>]\<rparr>))"

subsection \<open>Construction and startup\<close>

definition constructor :: "IConniebotConfig \<Rightarrow> Conniebot" where
  "constructor cfg = \<lparr>config = cfg, commands = Map.empty, x2i = None, ready = False\<rparr>"

text \<open>
  \<open>loadKeys\<close>: the directory is read and awaited, the files are read and awaited,
  the second line is logged, and only then the files are parsed and the matcher is built,
  which can throw. The matcher it returns is the one the world holds for the rule files.
\<close>

definition loadKeys :: "Conniebot \<Rightarrow> world \<Rightarrow> (fault + (jsstring \<Rightarrow> jsstring list)) \<times> world" where
  "loadKeys b w =
     (let w1 = log (js ''info'') w in
      case attempt Readdir w1 of
        (Some f, w2) \<Rightarrow> (Inl f, w2)
      | (None, w2) \<Rightarrow>
          (case attempt ReadFile w2 of
             (Some f, w3) \<Rightarrow> (Inl f, w3)
           | (None, w3) \<Rightarrow>
               (let w4 = log (js ''info'') w3 in
                case attempt BuildMatcher w4 of
                  (Some f, w5) \<Rightarrow> (Inl f, w5)
                | (None, w5) \<Rightarrow> (Inr (x2i_matcher w5), w5))))"

text \<open>
  The three notifications are started and not awaited; only \<open>loadKeys\<close> is awaited
  before the flag \<open>ready\<close> is set.
\<close>

definition startup :: "Conniebot \<Rightarrow> world \<Rightarrow> fault option \<times> Conniebot \<times> world" where
  "startup b w =
     (let w1 = log (js ''info'') w;
          w2 = emit UpdateActivity w1;
          w3 = emit NotifyRestart w2;
          w4 = emit NotifyNewErrors w3
      in case loadKeys b w4 of
           (Inl f, w5) \<Rightarrow> (Some f, b, w5)
         | (Inr matcher, w5) \<Rightarrow>
             (None, b\<lparr>x2i := Some matcher, ready := True\<rparr>, log (js ''info'') w5))"

subsection \<open>The crash handler\<close>

definition panicResponsibly :: "fault \<Rightarrow> bool \<Rightarrow> world \<Rightarrow> fault option \<times> world" where
  "panicResponsibly err exit w =
     (let w1 = log (js ''error'') w in
      case addError err w1 of
        (Some f, w2) \<Rightarrow> (Some f, w2)
      | (None, w2) \<Rightarrow> if exit then (None, process_exit 1 w2) else (None, w2))"

text \<open>The test of the error handler: \<open>err && err.message && err.message.includes("ECONNRESET")\<close>.\<close>

definition connection_reset :: "fault \<Rightarrow> bool" where
  "connection_reset err =
     (case err of
        Nullish \<Rightarrow> False
      | ErrorObject None \<Rightarrow> False
      | ErrorObject (Some msg) \<Rightarrow> msg \<noteq> [] \<and> js_includes msg (js ''ECONNRESET''))"

subsection \<open>Commands\<close>

text \<open>
  The match of \<open>message.content\<close> against the expression built in \<open>command\<close>,
  \<open>(?:^PREFIX)(\S*) ?(.*)\<close> with the prefix escaped: the text has to begin with the
  prefix; the first group is the longest run of units that are not white space, then one
  space is skipped if there is one, and the second group runs to the first line
  terminator. Every part after the prefix can match the empty string, so the greedy
  choice is the match.
\<close>

definition prefixRegex_match :: "jsstring \<Rightarrow> jsstring \<Rightarrow> (jsstring \<times> jsstring) option" where
  "prefixRegex_match pre text =
     (if startsWith pre text then
        (let rest = drop (length pre) text;
             cmd = takeWhile (\<lambda>c. \<not> isWhiteSpace c) rest;
             rest1 = dropWhile (\<lambda>c. \<not> isWhiteSpace c) rest;
             rest2 = (case rest1 of [] \<Rightarrow> [] | c # cs \<Rightarrow> if c = space then cs else rest1);
             args = takeWhile (\<lambda>c. \<not> isLineTerminator c) rest2
         in Some (cmd, args))
      else None)"

text \<open>
  \<open>this.commands\<close> is an object literal, so besides the registered commands (its own
  properties) it has the properties it inherits from \<open>Object.prototype\<close>, and both
  \<open>cmd in this.commands\<close> and \<open>this.commands[cmd]\<close> see them. An inherited function
  called with the message and the argument tokens returns, except
  \<open>__defineGetter__\<close> and \<open>__defineSetter__\<close>, which throw a TypeError because
  their second argument, the first token, is not a function. \<open>__proto__\<close> is the
  prototype object itself, which is not a function.
\<close>

datatype property = Function CommandCallback | NotFunction

definition objectPrototype :: "(jsstring \<times> property) list" where
  "objectPrototype =
     [(js ''constructor'', Function (\<lambda>m args. None)),
      (js ''__defineGetter__'', Function (\<lambda>m args. Some typeError)),
      (js ''__defineSetter__'', Function (\<lambda>m args. Some typeError)),
      (js ''hasOwnProperty'', Function (\<lambda>m args. None)),
      (js ''__lookupGetter__'', Function (\<lambda>m args. None)),
      (js ''__lookupSetter__'', Function (\<lambda>m args. None)),
      (js ''isPrototypeOf'', Function (\<lambda>m args. None)),
      (js ''propertyIsEnumerable'', Function (\<lambda>m args. None)),
      (js ''toString'', Function (\<lambda>m args. None)),
      (js ''valueOf'', Function (\<lambda>m args. None)),
      (js ''__proto__'', NotFunction),
      (js ''toLocaleString'', Function (\<lambda>m args. None))]"

text \<open>\<open>this.commands[cmd]\<close>: an own property first, an inherited one otherwise.\<close>

definition get_property :: "ICommands \<Rightarrow> jsstring \<Rightarrow> property option" where
  "get_property cs k =
     (case cs k of
        Some cb \<Rightarrow> Some (Function cb)
      | None \<Rightarrow> map_of objectPrototype k)"

text \<open>\<open>cmd in this.commands\<close>.\<close>

definition has_property :: "ICommands \<Rightarrow> jsstring \<Rightarrow> bool" where
  "has_property cs k = (case get_property cs k of None \<Rightarrow> False | Some v \<Rightarrow> True)"

text \<open>
  \<open>command\<close>. Where \<open>this.commands[cmd]\<close> has no method \<open>bind\<close> the call of it
  throws outside the \<open>try\<close>, and the promise of \<open>command\<close> is rejected.
\<close>

definition command :: "Conniebot \<Rightarrow> message \<Rightarrow> world \<Rightarrow> fault option \<times> world" where
  "command b m w =
     (case prefixRegex_match (prefix (config b)) (content m) of
        None \<Rightarrow> (None, w)
      | Some (cmd, args) \<Rightarrow>
          if \<not> has_property (commands b) cmd then (None, w)
          else
            (case get_property (commands b) cmd of
               None \<Rightarrow> (Some typeError, w)
             | Some NotFunction \<Rightarrow> (Some typeError, w)
             | Some (Function cb) \<Rightarrow>
                 (let w1 = emit (Call cmd m (js_split space args)) w in
                  case cb m (js_split space args) of
                    None \<Rightarrow> (None, log (js ''success:command/'' @ cmd) w1)
                  | Some err \<Rightarrow> (None, log (js ''error:command/'' @ cmd) w1))))"

text \<open>
  \<open>register\<close> stores the callback as an own property of \<open>this.commands\<close>. For the
  one name \<open>__proto__\<close> the assignment of the source replaces the prototype of the
  object instead of storing a property: the token \<open>__proto__\<close> then routes to the
  callback, as it does here, and the names a function inherits become routable as well,
  which is not followed here.
\<close>

definition register :: "Conniebot \<Rightarrow> jsstring \<Rightarrow> CommandCallback \<Rightarrow> Conniebot" where
  "register b name callback = b\<lparr>commands := (commands b)(name \<mapsto> callback)\<rparr>"

fun registerCommands :: "Conniebot \<Rightarrow> (jsstring \<times> CommandCallback) list \<Rightarrow> Conniebot" where
  "registerCommands b [] = b"
| "registerCommands b ((name, cmd) # callbacks) = registerCommands (register b name cmd) callbacks"

subsection \<open>Replies\<close>

text \<open>
  The loop over \<open>responses\<close> in \<open>x2iExec\<close>: each part is sent and awaited, the sent
  message is tagged with the delete reaction, and its identifier is kept. A send that
  fails ends the loop with its fault.
\<close>

fun send_responses ::
  "Conniebot \<Rightarrow> message \<Rightarrow> response list \<Rightarrow> snowflake list \<Rightarrow> world \<Rightarrow> (fault + snowflake list) \<times> world" where
  "send_responses b m [] responseMessages w = (Inr responseMessages, w)"
| "send_responses b m (r # rs) responseMessages w =
     (case channel_send (channel m) r w of
        (Inl f, w1) \<Rightarrow> (Inl f, w1)
      | (Inr responseMessage, w1) \<Rightarrow>
          send_responses b m rs (responseMessages @ [responseMessage])
            (message_react responseMessage (deleteEmoji (config b)) w1))"

text \<open>
  \<open>x2iExec\<close>. Without a matcher the result is the empty string and nothing is searched.
  The search and \<open>formatObject\<close> are taken to return; the faults of sending and of
  recording are caught and logged, so the call never throws.
\<close>

definition x2iExec :: "Conniebot \<Rightarrow> message \<Rightarrow> world \<Rightarrow> bool \<times> world" where
  "x2iExec b m w =
     (let (results, w0) =
            (case x2i b of
               None \<Rightarrow> ([], w)
             | Some search \<Rightarrow> (js_join [newline] (search (content m)), emit (Search (content m)) w));
          parsed = (results \<noteq> []);
          w' =
            (if parsed then
               (let (responses, logCode) =
                      (if int (length results) > timeoutChars (config b) then
                         (let timeoutMessage_r =
                                formatObject w0 (timeoutMessage (config b)) (client_user w0) (config b)
                          in ([Text (js_slice results 0 (timeoutChars (config b)) @ [ellipsis]),
                               (case timeoutMessage_r of
                                  Plain t \<Rightarrow> Text t
                                | Structured e \<Rightarrow> Rich e)],
                              js ''partial''))
                       else ([Text results], js ''all''))
                in case send_responses b m responses [] w0 of
                     (Inl err, w1) \<Rightarrow> log (js ''error:x2i/'' @ logCode) w1
                   | (Inr responseMessages, w1) \<Rightarrow>
                       (case addMessage m responseMessages w1 of
                          (Some err, w2) \<Rightarrow> log (js ''error:x2i/'' @ logCode) w2
                        | (None, w2) \<Rightarrow> log (js ''success:x2i/'' @ logCode) w2))
             else w0)
      in (parsed, w'))"

definition parse :: "Conniebot \<Rightarrow> message \<Rightarrow> world \<Rightarrow> fault option \<times> world" where
  "parse b m w =
     (if user_bot (author m) then (None, w)
      else
        (case x2iExec b m w of
           (True, w1) \<Rightarrow> (None, w1)
         | (False, w1) \<Rightarrow> command b m w1))"

subsection \<open>Reactions\<close>

definition reactDeleteMessage :: "Conniebot \<Rightarrow> reaction \<Rightarrow> user \<Rightarrow> world \<Rightarrow> fault option \<times> world" where
  "reactDeleteMessage b r u w =
     (if Some (user_id u) = map_option user_id (client_user w) then (None, w)
      else
        (case getMessageAuthor (reaction_message r) w of
           (Inl f, w1) \<Rightarrow> (Some f, w1)
         | (Inr a, w1) \<Rightarrow>
             if Some (user_id u) \<noteq> a then (None, w1)
             else if emoji_name r \<noteq> deleteEmoji (config b) then (None, w1)
             else
               (case message_delete (reaction_message r) w1 of
                  (Some f, w2) \<Rightarrow> (Some f, w2)
                | (None, w2) \<Rightarrow> deleteMessage (reaction_message r) w2)))"

subsection \<open>The event handlers the constructor installs\<close>

definition on_message :: "Conniebot \<Rightarrow> message \<Rightarrow> world \<Rightarrow> fault option \<times> world" where
  "on_message b m w = (if ready b then parse b m w else (None, w))"

definition on_messageReactionAdd ::
  "Conniebot \<Rightarrow> reaction \<Rightarrow> user \<Rightarrow> world \<Rightarrow> fault option \<times> world" where
  "on_messageReactionAdd b r u w = (if ready b then reactDeleteMessage b r u w else (None, w))"

text \<open>The error handler does not await \<open>panicResponsibly\<close>; its promise is dropped.\<close>

definition on_error :: "Conniebot \<Rightarrow> fault \<Rightarrow> world \<Rightarrow> world" where
  "on_error b err w =
     (if connection_reset err then log (js ''warn'') w
      else snd (panicResponsibly err True w))"

text \<open>
  \<open>process.once("uncaughtException", this.panicResponsibly)\<close>: the second parameter is
  its default, or the origin string the runtime passes, which is truthy.
\<close>

definition on_uncaughtException :: "Conniebot \<Rightarrow> fault \<Rightarrow> world \<Rightarrow> fault option \<times> world" where
  "on_uncaughtException b err w = panicResponsibly err True w"

subsection \<open>Reading a trace\<close>

text \<open>The events a run adds to the trace of the world it starts from.\<close>

definition new_events :: "world \<Rightarrow> world \<Rightarrow> event list" where
  "new_events w w' = drop (length (trace w)) (trace w')"

fun sent_parts :: "event list \<Rightarrow> response list" where
  "sent_parts [] = []"
| "sent_parts (Send ch r # es) = r # sent_parts es"
| "sent_parts (e # es) = sent_parts es"

text \<open>
  The function \<open>send\<close> of embed/embed.js: \<open>headersImportant\<close> is \<open>true\<close> when the
  caller leaves it out.
\<close>

definition send ::
  "bool \<Rightarrow> snowflake \<Rightarrow> embed \<Rightarrow> bool option \<Rightarrow> world \<Rightarrow> (fault + snowflake) \<times> world" where
  "send active ch message headersImportant w =
     channel_send ch
       (embed_output active message (case headersImportant of None \<Rightarrow> True | Some h \<Rightarrow> h)) w"

text \<open>
  The older revision of \<open>x2iExec\<close> that the file also holds differs in the first part
  of a truncated reply: it cuts at \<open>charMax - 1\<close>.
\<close>

definition truncated_v1 :: "jsstring \<Rightarrow> int \<Rightarrow> jsstring" where
  "truncated_v1 results charMax = js_slice results 0 (charMax - 1) @ [ellipsis]"

text \<open>The rendered text of a message: what \<open>x2iExec\<close> binds to \<open>results\<close>.\<close>

definition x2i_results :: "Conniebot \<Rightarrow> message \<Rightarrow> jsstring" where
  "x2i_results b m =
     (case x2i b of None \<Rightarrow> [] | Some search \<Rightarrow> js_join [newline] (search (content m)))"

text \<open>
  The events of the transformation path (search, sends, reaction tags, the record, its
  log line) and the events of command routing (the call of a handler, its log line).
\<close>

definition is_x2i_event :: "event \<Rightarrow> bool" where
  "is_x2i_event e =
     (case e of
        Search c \<Rightarrow> True
      | Send ch r \<Rightarrow> True
      | React mid emoji \<Rightarrow> True
      | AddMessage m ids \<Rightarrow> True
      | Log tag \<Rightarrow> startsWith (js ''success:x2i/'') tag \<or> startsWith (js ''error:x2i/'') tag
      | _ \<Rightarrow> False)"

definition is_command_event :: "event \<Rightarrow> bool" where
  "is_command_event e =
     (case e of
        Call cmd m args \<Rightarrow> True
      | Log tag \<Rightarrow> startsWith (js ''success:command/'') tag \<or> startsWith (js ''error:command/'') tag
      | _ \<Rightarrow> False)"

text \<open>
  The three guards of a deleting reaction, in the order the code tests them: the reacting
  user is not the user the client is logged in as, it is the origin author the store holds
  for the message reacted to, and the emoji is the configured one.
\<close>

definition deletion_guard :: "Conniebot \<Rightarrow> reaction \<Rightarrow> user \<Rightarrow> world \<Rightarrow> bool" where
  "deletion_guard b r u w =
     (Some (user_id u) \<noteq> map_option user_id (client_user w) \<and>
      Some (user_id u) = map_option origin_author_id
        (lookupRecordByMessage (replies w) (message_id (reaction_message r))) \<and>
      emoji_name r = deleteEmoji (config b))"

subsection \<open>Example inputs\<close>

text \<open>
  A configuration with the prefix \<open>!\<close> and a limit of three characters; a world where
  no call fails; a bot with the command \<open>greet\<close> and a matcher that renders every text
  not starting with \<open>!\<close> as itself; a reply of the bot with its record; and the origin
  author's deleting reaction to it.
\<close>

definition example_config :: IConniebotConfig where
  "example_config =
     \<lparr>activeMessage = js ''x,help'', database = js ''db'', deleteEmoji = js ''x'',
      help_template = Plain (js ''help''), owner = js ''1'', prefix = js ''!'', timeoutChars = 3,
      timeoutMessage = Plain (js ''too long''), token = js ''t'', x2iFiles = js ''x2i''\<rparr>"

definition example_author :: user where
  "example_author = \<lparr>user_id = 7, user_bot = False\<rparr>"

definition example_message :: "jsstring \<Rightarrow> message" where
  "example_message text = \<lparr>message_id = 1, content = text, author = example_author, channel = 2\<rparr>"

definition example_world :: world where
  "example_world =
     \<lparr>trace = [], replies = [], errors = [], exited = None,
      client_user = Some \<lparr>user_id = 99, user_bot = True\<rparr>,
      io_fault = (\<lambda>n e. None), new_id = (\<lambda>n. 100 + n),
      formatObject = (\<lambda>t u c. t), x2i_matcher = (\<lambda>text. [text])\<rparr>"

definition example_bot :: Conniebot where
  "example_bot =
     (register (constructor example_config) (js ''greet'') (\<lambda>m args. None))
       \<lparr>x2i := Some (\<lambda>text. if startsWith (js ''!'') text then [] else [text]), ready := True\<rparr>"

definition example_reply :: message where
  "example_reply =
     \<lparr>message_id = 101, content = js ''abcde'',
      author = \<lparr>user_id = 99, user_bot = True\<rparr>, channel = 2\<rparr>"

definition example_reaction :: reaction where
  "example_reaction = \<lparr>reaction_message = example_reply, emoji_name = js ''x''\<rparr>"

definition example_world_replied :: world where
  "example_world_replied =
     example_world\<lparr>replies :=
       [\<lparr>origin_message_id = 1, origin_channel_id = 2, origin_author_id = 7,
         reply_message_ids = [101]\<rparr>]\<rparr>"

text \<open>
  The world after the example bot has answered the text \<open>abcde\<close>, which is longer
  than the limit: two parts were sent, and one record ties both to the origin message.
\<close>

definition example_world_two_parts :: world where
  "example_world_two_parts =
     snd (x2iExec example_bot (example_message (js ''abcde'')) example_world)"

text \<open>
  The reading of the ordering claim that speaks of every reply message: each of the
  reply messages \<open>ids\<close> of a record has been deleted from the transport before the
  store is asked to delete the record found for the message \<open>mid\<close>.
\<close>

definition reply_messages_deleted_first :: "snowflake list \<Rightarrow> snowflake \<Rightarrow> event list \<Rightarrow> bool" where
  "reply_messages_deleted_first ids mid es =
     list_all (\<lambda>i. MessageDelete i \<in> set (takeWhile (\<lambda>e. e \<noteq> DeleteMessage mid) es)) ids"

section \<open>Facts about the string functions\<close>

lemma js_join_append:
  "xs \<noteq> [] \<Longrightarrow> ys \<noteq> [] \<Longrightarrow> js_join sep (xs @ ys) = js_join sep xs @ sep @ js_join sep ys"
proof (induction sep xs rule: js_join.induct)
  case (1 sep)
  then show ?case by simp
next
  case (2 sep x)
  then show ?case by (cases ys) simp_all
next
  case (3 sep x y zs)
  then show ?case by simp
qed

lemma js_join_Cons:
  "ys \<noteq> [] \<Longrightarrow> js_join sep (x # ys) = x @ sep @ js_join sep ys"
  by (cases ys) simp_all

lemma field_lines_not_empty: "field_lines keep f \<noteq> []"
  by (simp add: field_lines_def)

lemma blank_separated_not_empty:
  "\<forall>b \<in> set bs. b \<noteq> [] \<Longrightarrow> blank_separated bs \<noteq> []"
  by (induction bs rule: blank_separated.induct) simp_all

lemma js_join_blank_separated:
  "\<forall>b \<in> set bs. b \<noteq> [] \<Longrightarrow>
   js_join [newline] (blank_separated bs) = js_join [newline, newline] (map (js_join [newline]) bs)"
proof (induction bs rule: blank_separated.induct)
  case 1
  show ?case by simp
next
  case (2 b)
  show ?case by simp
next
  case (3 b c cs)
  have rest: "blank_separated (c # cs) \<noteq> []"
    using 3 by (intro blank_separated_not_empty) simp
  have b: "b \<noteq> []"
    using 3 by simp
  have "js_join [newline] (b @ [[]] @ blank_separated (c # cs))
        = js_join [newline] b @ [newline] @ js_join [newline] ([] # blank_separated (c # cs))"
    using b by (simp add: js_join_append)
  also have "js_join [newline] ([] # blank_separated (c # cs))
        = [newline] @ js_join [newline] (blank_separated (c # cs))"
    using rest by (simp add: js_join_Cons)
  finally show ?case
    using 3 by simp
qed

lemma js_join_field_lines:
  "js_join [newline] (field_lines keep f)
   = (if keep then js ''**'' @ field_name f @ js ''**'' @ [newline] else []) @ field_value f"
  by (simp add: field_lines_def)

lemma handleBody_lines:
  "handleBody m keep
   = js_join [newline]
       (blank_separated (map (field_lines keep) (case embed_fields m of None \<Rightarrow> [] | Some fs \<Rightarrow> fs)))"
proof -
  have "js_join [newline] (blank_separated (map (field_lines keep) fs))
        = js_join [newline, newline]
            (map (\<lambda>f. (if keep then js ''**'' @ field_name f @ js ''**'' @ [newline] else [])
                       @ field_value f) fs)" for fs
    by (simp add: js_join_blank_separated field_lines_not_empty js_join_field_lines comp_def)
  then show ?thesis
    by (cases "embed_fields m") (simp_all add: handleBody_def Let_def)
qed

lemma strip_lines: "strip m keep = plain_rendering m keep"
proof -
  let ?body = "blank_separated (map (field_lines keep) (case embed_fields m of None \<Rightarrow> [] | Some fs \<Rightarrow> fs))"
  have body: "?body \<noteq> []"
    by (intro blank_separated_not_empty) (simp add: field_lines_not_empty)
  have tail: "js_join [newline] ([] # ?body) = [newline] @ handleBody m keep"
    using body by (simp add: js_join_Cons handleBody_lines)
  have desc: "js_join [newline] (description_lines m @ [] # ?body)
              = (case description m of None \<Rightarrow> [] | Some d \<Rightarrow> if d \<noteq> [] then d @ [newline] else [])
                @ [newline] @ handleBody m keep"
    using tail by (cases "description m") (simp_all add: description_lines_def js_join_Cons)
  have "js_join [newline] (title_lines m @ description_lines m @ [] # ?body)
        = (case title m of None \<Rightarrow> [] | Some t \<Rightarrow> if t \<noteq> [] then js ''**'' @ t @ js ''**'' @ [newline] else [])
          @ (case description m of None \<Rightarrow> [] | Some d \<Rightarrow> if d \<noteq> [] then d @ [newline] else [])
          @ [newline] @ handleBody m keep"
    using desc by (cases "title m") (simp_all add: title_lines_def js_join_Cons)
  then show ?thesis
    by (simp add: strip_def plain_rendering_def Let_def)
qed

lemma startsWith_append [simp]: "startsWith p (p @ s)"
  by (induction p) simp_all

lemma startsWith_Cons: "startsWith (p # ps) s = (\<exists>cs. s = p # cs \<and> startsWith ps cs)"
  by (cases s) auto

lemma js_slice_prefix: "0 \<le> e \<Longrightarrow> js_slice s 0 e = take (nat e) s"
  by (simp add: js_slice_def Let_def min_def)

text \<open>With a limit of at least one, the older revision sent one character less.\<close>

lemma truncated_v1_length:
  "1 \<le> charMax \<Longrightarrow> charMax < int (length results) \<Longrightarrow>
   truncated_v1 results charMax = take (nat charMax - 1) results @ [ellipsis] \<and>
   length (take (nat charMax - 1) results) = nat charMax - 1"
  by (auto simp: truncated_v1_def js_slice_prefix nat_diff_distrib)

section \<open>Facts about the calls into the world\<close>

lemma emit_fields [simp]:
  "trace (emit e w) = trace w @ [e]"
  "replies (emit e w) = replies w"
  "errors (emit e w) = errors w"
  "exited (emit e w) = exited w"
  "client_user (emit e w) = client_user w"
  "io_fault (emit e w) = io_fault w"
  "new_id (emit e w) = new_id w"
  "formatObject (emit e w) = formatObject w"
  "x2i_matcher (emit e w) = x2i_matcher w"
  by (simp_all add: emit_def)

lemma log_fields [simp]:
  "trace (log t w) = trace w @ [Log t]"
  "replies (log t w) = replies w"
  "errors (log t w) = errors w"
  "exited (log t w) = exited w"
  "client_user (log t w) = client_user w"
  "io_fault (log t w) = io_fault w"
  "new_id (log t w) = new_id w"
  "formatObject (log t w) = formatObject w"
  "x2i_matcher (log t w) = x2i_matcher w"
  by (simp_all add: log_def)

lemma new_events_append [simp]: "trace w' = trace w @ es \<Longrightarrow> new_events w w' = es"
  by (simp add: new_events_def)

lemma new_events_same [simp]: "new_events w w = []"
  by (simp add: new_events_def)

lemma sent_parts_append [simp]: "sent_parts (xs @ ys) = sent_parts xs @ sent_parts ys"
  by (induction xs rule: sent_parts.induct) simp_all

lemma events_disjoint: "is_x2i_event e \<Longrightarrow> \<not> is_command_event e"
  by (cases e) (auto simp: is_x2i_event_def is_command_event_def startsWith_Cons js_def)

lemmas example_defs =
  example_config_def example_author_def example_message_def example_world_def example_bot_def
  example_reply_def example_reaction_def example_world_replied_def

section \<open>Facts about startup and the crash handler\<close>

lemma startup_ready:
  "\<not> ready b \<Longrightarrow> ready (fst (snd (startup b w))) = (fst (startup b w) = None)"
  by (auto simp: startup_def loadKeys_def attempt_def Let_def split: option.splits)

lemma startup_loads_rules:
  "fst (startup b w) = None \<Longrightarrow> x2i (fst (snd (startup b w))) = Some (x2i_matcher w)"
  by (auto simp: startup_def loadKeys_def attempt_def Let_def split: option.splits)

lemma panicResponsibly_recorded:
  assumes "\<forall>n. io_fault w n (AddError err) = None"
  shows "panicResponsibly err True w =
     (None, w\<lparr>trace := trace w @ [Log (js ''error''), AddError err, Exit 1],
              errors := errors w @ [\<lparr>error_text = err, notified = False\<rparr>],
              exited := Some 1\<rparr>)"
  using assms
  by (simp add: panicResponsibly_def addError_def attempt_def log_def process_exit_def emit_def Let_def)

text \<open>When the journal refuses the record, the process does not exit.\<close>

lemma panicResponsibly_not_recorded:
  assumes "io_fault w (Suc (length (trace w))) (AddError err) = Some f"
  shows "panicResponsibly err ex w =
     (Some f, w\<lparr>trace := trace w @ [Log (js ''error''), AddError err]\<rparr>)"
  using assms
  by (simp add: panicResponsibly_def addError_def attempt_def log_def emit_def Let_def)

section \<open>Facts about reactions\<close>

lemma lookup_after_delete:
  "lookupRecordByMessage (filter (\<lambda>r. \<not> record_matches mid r) rs) mid = None"
  by (simp add: lookupRecordByMessage_def find_None_iff)

text \<open>The run of \<open>reactDeleteMessage\<close>, case by case.\<close>

lemma reactDeleteMessage_cases:
  "reactDeleteMessage b r u w =
     (let mid = message_id (reaction_message r);
          w1 = emit (GetMessageAuthor mid) w;
          w2 = emit (MessageDelete mid) w1;
          w3 = emit (DeleteMessage mid) w2
      in if Some (user_id u) = map_option user_id (client_user w) then (None, w)
         else case io_fault w (length (trace w)) (GetMessageAuthor mid) of
                Some f \<Rightarrow> (Some f, w1)
              | None \<Rightarrow>
                  if \<not> deletion_guard b r u w then (None, w1)
                  else case io_fault w (Suc (length (trace w))) (MessageDelete mid) of
                         Some f \<Rightarrow> (Some f, w2)
                       | None \<Rightarrow>
                          (case io_fault w (Suc (Suc (length (trace w)))) (DeleteMessage mid) of
                             Some f \<Rightarrow> (Some f, w3)
                           | None \<Rightarrow>
                               (None, w3\<lparr>replies := filter (\<lambda>x. \<not> record_matches mid x) (replies w)\<rparr>)))"
  by (simp add: deletion_guard_def reactDeleteMessage_def getMessageAuthor_def attempt_def
        message_delete_def deleteMessage_def Let_def split: option.splits)

lemma reactDeleteMessage_refused:
  assumes "\<not> deletion_guard b r u w"
  shows "replies (snd (reactDeleteMessage b r u w)) = replies w \<and>
         (new_events w (snd (reactDeleteMessage b r u w)) = [] \<or>
          new_events w (snd (reactDeleteMessage b r u w)) = [GetMessageAuthor (message_id (reaction_message r))])"
  using assms by (simp add: reactDeleteMessage_cases Let_def split: option.splits)

lemma reactDeleteMessage_refused_quietly:
  assumes "\<not> deletion_guard b r u w"
      and "\<forall>n. io_fault w n (GetMessageAuthor (message_id (reaction_message r))) = None"
  shows "fst (reactDeleteMessage b r u w) = None"
  using assms by (simp add: reactDeleteMessage_cases Let_def split: option.splits)

lemma reactDeleteMessage_granted:
  assumes "deletion_guard b r u w"
      and "\<forall>n. io_fault w n (GetMessageAuthor (message_id (reaction_message r))) = None"
  shows "new_events w (snd (reactDeleteMessage b r u w)) =
           [GetMessageAuthor (message_id (reaction_message r)),
            MessageDelete (message_id (reaction_message r))] @
           (if io_fault w (Suc (length (trace w))) (MessageDelete (message_id (reaction_message r))) = None
            then [DeleteMessage (message_id (reaction_message r))] else [])"
  using assms
  by (auto simp: reactDeleteMessage_cases Let_def deletion_guard_def split: option.splits)

lemma reactDeleteMessage_completed:
  assumes "deletion_guard b r u w"
      and "reactDeleteMessage b r u w = (None, w')"
  shows "lookupRecordByMessage (replies w') (message_id (reaction_message r)) = None \<and>
         io_fault w' = io_fault w \<and> client_user w' = client_user w"
  using assms
  by (auto simp: reactDeleteMessage_cases Let_def deletion_guard_def lookup_after_delete
        split: option.splits if_splits)

section \<open>Facts about replies\<close>

lemma addMessage_trace:
  "trace (snd (addMessage m ids w)) = trace w @ [AddMessage m ids]"
  by (simp add: addMessage_def attempt_def split: option.splits)

lemma x2iExec_parsed: "fst (x2iExec b m w) = (x2i_results b m \<noteq> [])"
  by (simp add: x2iExec_def x2i_results_def Let_def split: option.splits prod.splits sum.splits)

text \<open>When the transport accepts every send, every part is sent, in order.\<close>

lemma send_responses_accepted:
  assumes "\<forall>n ch r. io_fault w n (Send ch r) = None"
  shows "\<exists>ids es. send_responses b m rs acc w = (Inr ids, w\<lparr>trace := trace w @ es\<rparr>) \<and> sent_parts es = rs"
  using assms
proof (induction rs arbitrary: acc w)
  case Nil
  show ?case by (intro exI[of _ acc] exI[of _ "[]"]) simp
next
  case (Cons r rs)
  let ?w1 = "message_react (new_id w (length (trace w))) (deleteEmoji (config b)) (emit (Send (channel m) r) w)"
  have "\<forall>n ch r. io_fault ?w1 n (Send ch r) = None"
    using Cons.prems by (simp add: message_react_def)
  from Cons.IH[OF this, of "acc @ [new_id w (length (trace w))]"]
  obtain ids es where
    "send_responses b m rs (acc @ [new_id w (length (trace w))]) ?w1 = (Inr ids, ?w1\<lparr>trace := trace ?w1 @ es\<rparr>)"
    "sent_parts es = rs" by blast
  then show ?case
    using Cons.prems
    by (intro exI[of _ ids] exI[of _ "[Send (channel m) r, React (new_id w (length (trace w))) (deleteEmoji (config b))] @ es"])
       (simp add: channel_send_def attempt_def message_react_def emit_def)
qed

text \<open>Whatever the transport answers, the loop only sends and tags.\<close>

lemma send_responses_events:
  "\<exists>es. snd (send_responses b m rs acc w) = w\<lparr>trace := trace w @ es\<rparr> \<and> (\<forall>e \<in> set es. is_x2i_event e)"
proof (induction rs arbitrary: acc w)
  case Nil
  show ?case by (intro exI[of _ "[]"]) simp
next
  case (Cons r rs)
  show ?case
  proof (cases "io_fault w (length (trace w)) (Send (channel m) r)")
    case (Some f)
    then show ?thesis
      by (intro exI[of _ "[Send (channel m) r]"])
         (simp add: channel_send_def attempt_def emit_def is_x2i_event_def)
  next
    case None
    let ?w1 = "message_react (new_id w (length (trace w))) (deleteEmoji (config b)) (emit (Send (channel m) r) w)"
    from Cons.IH[of "acc @ [new_id w (length (trace w))]" ?w1]
    obtain es where
      "snd (send_responses b m rs (acc @ [new_id w (length (trace w))]) ?w1) = ?w1\<lparr>trace := trace ?w1 @ es\<rparr>"
      "\<forall>e \<in> set es. is_x2i_event e" by blast
    then show ?thesis
      using None
      by (intro exI[of _ "[Send (channel m) r, React (new_id w (length (trace w))) (deleteEmoji (config b))] @ es"])
         (simp add: channel_send_def attempt_def message_react_def emit_def is_x2i_event_def)
  qed
qed

lemma x2iExec_events:
  "\<exists>es. trace (snd (x2iExec b m w)) = trace w @ es \<and> (\<forall>e \<in> set es. is_x2i_event e) \<and>
        (\<not> fst (x2iExec b m w) \<longrightarrow> es = [] \<or> es = [Search (content m)])"
proof (cases "x2i_results b m = []")
  case True
  then show ?thesis
    by (cases "x2i b")
       (auto simp: x2iExec_def x2i_results_def Let_def is_x2i_event_def)
next
  case False
  define w0 where "w0 = (case x2i b of None \<Rightarrow> w | Some search \<Rightarrow> emit (Search (content m)) w)"
  have w0: "\<exists>es0. trace w0 = trace w @ es0 \<and> (\<forall>e \<in> set es0. is_x2i_event e)"
    by (cases "x2i b") (auto simp: w0_def is_x2i_event_def)
  have "\<exists>responses logCode. snd (x2iExec b m w) =
     (case send_responses b m responses [] w0 of
        (Inl err, w1) \<Rightarrow> log (js ''error:x2i/'' @ logCode) w1
      | (Inr responseMessages, w1) \<Rightarrow>
          (case addMessage m responseMessages w1 of
             (Some err, w2) \<Rightarrow> log (js ''error:x2i/'' @ logCode) w2
           | (None, w2) \<Rightarrow> log (js ''success:x2i/'' @ logCode) w2))"
  proof (cases "x2i b")
    case None
    with False show ?thesis by (simp add: x2i_results_def)
  next
    case (Some search)
    show ?thesis
    proof (cases "int (length (x2i_results b m)) > timeoutChars (config b)")
      case True
      with False Some show ?thesis
        by (intro exI[of _ "[Text (js_slice (x2i_results b m) 0 (timeoutChars (config b)) @ [ellipsis]),
               (case formatObject w0 (timeoutMessage (config b)) (client_user w0) (config b) of
                  Plain t \<Rightarrow> Text t | Structured e \<Rightarrow> Rich e)]"] exI[of _ "js ''partial''"])
           (simp add: x2iExec_def x2i_results_def Let_def w0_def del: send_responses.simps)
    next
      case short: False
      with False Some show ?thesis
        by (intro exI[of _ "[Text (x2i_results b m)]"] exI[of _ "js ''all''"])
           (simp add: x2iExec_def x2i_results_def Let_def w0_def del: send_responses.simps)
    qed
  qed
  then obtain responses logCode where run: "snd (x2iExec b m w) =
     (case send_responses b m responses [] w0 of
        (Inl err, w1) \<Rightarrow> log (js ''error:x2i/'' @ logCode) w1
      | (Inr responseMessages, w1) \<Rightarrow>
          (case addMessage m responseMessages w1 of
             (Some err, w2) \<Rightarrow> log (js ''error:x2i/'' @ logCode) w2
           | (None, w2) \<Rightarrow> log (js ''success:x2i/'' @ logCode) w2))"
    by blast
  obtain es1 where sr: "snd (send_responses b m responses [] w0) = w0\<lparr>trace := trace w0 @ es1\<rparr>"
    and es1: "\<forall>e \<in> set es1. is_x2i_event e"
    using send_responses_events by blast
  have "\<exists>es2. trace (snd (x2iExec b m w)) = trace w0 @ es1 @ es2 \<and> (\<forall>e \<in> set es2. is_x2i_event e)"
  proof (cases "send_responses b m responses [] w0")
    case (Pair res w1)
    with sr have w1: "w1 = w0\<lparr>trace := trace w0 @ es1\<rparr>" by simp
    show ?thesis
    proof (cases res)
      case (Inl err)
      then show ?thesis
        using Pair w1 by (simp add: run is_x2i_event_def)
    next
      case (Inr ids)
      then show ?thesis
        using Pair w1 addMessage_trace[of m ids w1]
        by (cases "addMessage m ids w1") (auto simp: run is_x2i_event_def split: option.splits)
    qed
  qed
  then obtain es2 where "trace (snd (x2iExec b m w)) = trace w0 @ es1 @ es2"
    "\<forall>e \<in> set es2. is_x2i_event e" by blast
  moreover obtain es0 where "trace w0 = trace w @ es0" "\<forall>e \<in> set es0. is_x2i_event e"
    using w0 by blast
  ultimately have "trace (snd (x2iExec b m w)) = trace w @ (es0 @ es1 @ es2) \<and>
      (\<forall>e \<in> set (es0 @ es1 @ es2). is_x2i_event e)"
    using es1 by auto
  moreover have "fst (x2iExec b m w)"
    using False by (simp add: x2iExec_parsed)
  ultimately show ?thesis by blast
qed

section \<open>Facts about commands\<close>

lemma command_events:
  "\<exists>es. trace (snd (command b m w)) = trace w @ es \<and> (\<forall>e \<in> set es. is_command_event e)"
  by (auto simp: command_def Let_def is_command_event_def
        split: option.splits prod.splits property.splits)

lemma prefixRegex_match_bare:
  assumes "\<forall>c \<in> set cmd. \<not> isWhiteSpace c"
      and "text = pre @ cmd \<or> text = pre @ cmd @ [space]"
  shows "prefixRegex_match pre text = Some (cmd, [])"
proof -
  have ws: "isWhiteSpace space"
    by (simp add: isWhiteSpace_def space_def)
  have t: "takeWhile (\<lambda>c. \<not> isWhiteSpace c) cmd = cmd"
    "dropWhile (\<lambda>c. \<not> isWhiteSpace c) cmd = []"
    using assms(1) by simp_all
  have t2: "takeWhile (\<lambda>c. \<not> isWhiteSpace c) (cmd @ [space]) = cmd"
    "dropWhile (\<lambda>c. \<not> isWhiteSpace c) (cmd @ [space]) = [space]"
    using assms(1) ws by (simp_all add: takeWhile_append2 dropWhile_append2)
  from assms(2) show ?thesis
  proof
    assume "text = pre @ cmd"
    then show ?thesis by (simp add: prefixRegex_match_def t Let_def)
  next
    assume "text = pre @ cmd @ [space]"
    then show ?thesis by (simp add: prefixRegex_match_def t2 Let_def)
  qed
qed

text \<open>What holds of routing: a text without the prefix does nothing.\<close>

lemma command_without_prefix:
  "\<not> startsWith (prefix (config b)) (content m) \<Longrightarrow> command b m w = (None, w)"
  by (simp add: command_def prefixRegex_match_def)

text \<open>
  A token that is neither registered nor a property of \<open>Object.prototype\<close> does
  nothing.
\<close>

lemma command_unknown:
  assumes "prefixRegex_match (prefix (config b)) (content m) = Some (cmd, args)"
      and "commands b cmd = None"
      and "map_of objectPrototype cmd = None"
  shows "command b m w = (None, w)"
  using assms by (simp add: command_def has_property_def get_property_def)

text \<open>
  A registered token calls its handler once, with the second group split at single
  spaces; the fault of a handler is caught and logged.
\<close>

lemma command_registered:
  assumes "prefixRegex_match (prefix (config b)) (content m) = Some (cmd, args)"
      and "commands b cmd = Some cb"
  shows "fst (command b m w) = None \<and>
         new_events w (snd (command b m w)) =
           [Call cmd m (js_split space args),
            Log ((if cb m (js_split space args) = None
                  then js ''success:command/'' else js ''error:command/'') @ cmd)]"
  using assms
  by (simp add: command_def has_property_def get_property_def Let_def split: option.splits)

lemma command_greet_alice_bob:
  "prefixRegex_match (js ''!'') (js ''!greet alice bob'') = Some (js ''greet'', js ''alice bob'') \<and>
   js_split space (js ''alice bob'') = [js ''alice'', js ''bob'']"
  by (simp add: prefixRegex_match_def js_def Let_def isWhiteSpace_def isLineTerminator_def space_def)

text \<open>
  Other inherited names: \<open>__proto__\<close> is not a function, so \<open>command\<close> is
  rejected with a TypeError; \<open>toString\<close> is called and logged as a success.
\<close>

lemma command_inherited_examples:
  "fst (command (constructor example_config) (example_message (js ''!__proto__'')) example_world)
     = Some typeError \<and>
   new_events example_world
     (snd (command (constructor example_config) (example_message (js ''!toString'')) example_world))
   = [Call (js ''toString'') (example_message (js ''!toString'')) [[]],
      Log (js ''success:command/toString'')]"
  by (simp add: command_def prefixRegex_match_def has_property_def get_property_def
        objectPrototype_def typeError_def example_defs constructor_def js_def Let_def
        isWhiteSpace_def isLineTerminator_def space_def emit_def log_def new_events_def)

section \<open>Facts about the example of a two-part reply\<close>

lemmas two_parts_eval =
  example_world_two_parts_def x2iExec_def example_defs register_def constructor_def
  js_def Let_def js_slice_def channel_send_def attempt_def addMessage_def message_react_def
  emit_def log_def

lemma two_parts_trace:
  "trace example_world_two_parts =
     [Search (js ''abcde''), Send 2 (Text (js ''abc'' @ [ellipsis])), React 101 (js ''x''),
      Send 2 (Text (js ''too long'')), React 103 (js ''x''),
      AddMessage (example_message (js ''abcde'')) [101, 103], Log (js ''success:x2i/partial'')]"
  by (simp add: two_parts_eval)

lemma two_parts_replies:
  "replies example_world_two_parts =
     [\<lparr>origin_message_id = 1, origin_channel_id = 2, origin_author_id = 7,
       reply_message_ids = [101, 103]\<rparr>]"
  by (simp add: two_parts_eval)

lemma two_parts_client: "client_user example_world_two_parts = Some \<lparr>user_id = 99, user_bot = True\<rparr>"
  by (simp add: two_parts_eval)

lemma two_parts_io: "io_fault example_world_two_parts n e = None"
  by (simp add: two_parts_eval)

lemma example_two_parts_guard:
  "deletion_guard example_bot example_reaction example_author example_world_two_parts"
  by (simp add: deletion_guard_def two_parts_replies two_parts_client lookupRecordByMessage_def
        record_matches_def example_bot_def example_reaction_def example_reply_def
        example_author_def example_config_def register_def constructor_def)

lemma example_two_parts_run:
  "new_events example_world_two_parts
     (snd (reactDeleteMessage example_bot example_reaction example_author example_world_two_parts))
   = [GetMessageAuthor 101, MessageDelete 101, DeleteMessage 101] \<and>
   replies (snd (reactDeleteMessage example_bot example_reaction example_author example_world_two_parts)) = []"
  using example_two_parts_guard
  by (simp add: reactDeleteMessage_cases Let_def two_parts_replies two_parts_client two_parts_io
        example_reaction_def example_reply_def example_author_def record_matches_def)

section \<open>Claims\<close>

text \<open>
  C1. Let \<open>L\<close> be the configured limit \<open>timeoutChars\<close>, not negative, and let the
  rendered text be non-empty. When the transport accepts every send, \<open>x2iExec\<close> sends
  exactly two parts if the text is longer than \<open>L\<close>: the first \<open>L\<close> characters of the
  text followed by the ellipsis, and the rendering of the timeout template; it sends
  exactly one part, the whole text, if the text has at most \<open>L\<close> characters.
\<close>

theorem x2iExec_truncation:
  assumes "x2i b = Some search"
      and "results = js_join [newline] (search (content m))"
      and "results \<noteq> []"
      and "0 \<le> timeoutChars (config b)"
      and "\<forall>n ch r. io_fault w n (Send ch r) = None"
  shows "sent_parts (new_events w (snd (x2iExec b m w))) =
           (if int (length results) > timeoutChars (config b)
            then [Text (take (nat (timeoutChars (config b))) results @ [ellipsis]),
                  (case formatObject w (timeoutMessage (config b)) (client_user w) (config b) of
                     Plain t \<Rightarrow> Text t
                   | Structured e \<Rightarrow> Rich e)]
            else [Text results]) \<and>
         (int (length results) > timeoutChars (config b) \<longrightarrow>
            length (take (nat (timeoutChars (config b))) results) = nat (timeoutChars (config b)))"
proof -
  let ?w0 = "emit (Search (content m)) w"
  let ?rs = "if int (length results) > timeoutChars (config b)
            then [Text (take (nat (timeoutChars (config b))) results @ [ellipsis]),
                  (case formatObject w (timeoutMessage (config b)) (client_user w) (config b) of
                     Plain t \<Rightarrow> Text t
                   | Structured e \<Rightarrow> Rich e)]
            else [Text results]"
  have ok: "\<forall>n ch r. io_fault ?w0 n (Send ch r) = None"
    using assms(5) by simp
  obtain ids es where sr: "send_responses b m ?rs [] ?w0 = (Inr ids, ?w0\<lparr>trace := trace ?w0 @ es\<rparr>)"
    and es: "sent_parts es = ?rs"
    using send_responses_accepted[OF ok] by blast
  have "\<exists>tl. trace (snd (x2iExec b m w)) = trace w @ [Search (content m)] @ es @ tl \<and> sent_parts tl = []"
    using assms(1-4) sr
    by (cases "addMessage m ids (?w0\<lparr>trace := trace ?w0 @ es\<rparr>)")
       (auto simp: x2iExec_def Let_def js_slice_prefix addMessage_def attempt_def emit_def
             split: option.splits if_splits)
  then obtain tl where "trace (snd (x2iExec b m w)) = trace w @ ([Search (content m)] @ es @ tl)"
    and "sent_parts tl = []" by auto
  then have "sent_parts (new_events w (snd (x2iExec b m w))) = ?rs"
    using es by (simp del: append_assoc append.simps)
  then show ?thesis by simp
qed

theorem x2iExec_truncation_witness:
  "sent_parts (new_events example_world
      (snd (x2iExec example_bot (example_message (js ''abcde'')) example_world)))
   = [Text (js ''abc'' @ [ellipsis]), Text (js ''too long'')] \<and>
   sent_parts (new_events example_world
      (snd (x2iExec example_bot (example_message (js ''abc'')) example_world)))
   = [Text (js ''abc'')]"
proof -
  let ?search = "\<lambda>text. if startsWith (js ''!'') text then [] else [text]"
  have b: "x2i example_bot = Some ?search"
    by (simp add: example_defs register_def constructor_def)
  have l: "0 \<le> timeoutChars (config example_bot)"
    by (simp add: example_defs register_def constructor_def)
  have s: "\<forall>n ch r. io_fault example_world n (Send ch r) = None"
    by (simp add: example_defs)
  have r1: "js ''abcde'' = js_join [newline] (?search (content (example_message (js ''abcde''))))"
    by (simp add: example_defs js_def)
  have r2: "js ''abc'' = js_join [newline] (?search (content (example_message (js ''abc''))))"
    by (simp add: example_defs js_def)
  have n1: "js ''abcde'' \<noteq> []" and n2: "js ''abc'' \<noteq> []"
    by (simp_all add: js_def)
  show ?thesis
    using x2iExec_truncation[OF b r1 n1 l s] x2iExec_truncation[OF b r2 n2 l s]
    by (simp add: example_defs register_def constructor_def js_def)
qed

text \<open>
  C2. Provided the lookup of the origin author does not fail: \<open>reactDeleteMessage\<close> asks
  the transport to delete the message exactly when the three guards hold (the reacting
  user is not the bot, it is the persisted origin author of the message, the emoji is the
  configured one). A reaction failing a guard returns without a fault, deletes nothing
  from the transport and leaves the reply records as they are. When the guards hold and
  the deletion has completed, the record is absent, and the same reaction once more
  returns without a fault and without another deletion.
\<close>

theorem deletion_iff_guards:
  assumes "\<forall>n. io_fault w n (GetMessageAuthor (message_id (reaction_message r))) = None"
  shows "(MessageDelete (message_id (reaction_message r))
            \<in> set (new_events w (snd (reactDeleteMessage b r u w)))) = deletion_guard b r u w \<and>
         (\<not> deletion_guard b r u w \<longrightarrow>
            fst (reactDeleteMessage b r u w) = None \<and>
            replies (snd (reactDeleteMessage b r u w)) = replies w \<and>
            MessageDelete (message_id (reaction_message r)) \<notin> set (new_events w (snd (reactDeleteMessage b r u w))) \<and>
            DeleteMessage (message_id (reaction_message r)) \<notin> set (new_events w (snd (reactDeleteMessage b r u w)))) \<and>
         (deletion_guard b r u w \<and> reactDeleteMessage b r u w = (None, w') \<longrightarrow>
            lookupRecordByMessage (replies w') (message_id (reaction_message r)) = None \<and>
            \<not> deletion_guard b r u w' \<and>
            fst (reactDeleteMessage b r u w') = None \<and>
            replies (snd (reactDeleteMessage b r u w')) = replies w' \<and>
            MessageDelete (message_id (reaction_message r)) \<notin> set (new_events w' (snd (reactDeleteMessage b r u w'))) \<and>
            DeleteMessage (message_id (reaction_message r)) \<notin> set (new_events w' (snd (reactDeleteMessage b r u w'))))"
proof (intro conjI impI)
  show "(MessageDelete (message_id (reaction_message r))
            \<in> set (new_events w (snd (reactDeleteMessage b r u w)))) = deletion_guard b r u w"
  proof (cases "deletion_guard b r u w")
    case True
    with reactDeleteMessage_granted[OF True assms] show ?thesis by simp
  next
    case False
    with reactDeleteMessage_refused[OF False] show ?thesis by auto
  qed
next
  assume g: "\<not> deletion_guard b r u w"
  show "fst (reactDeleteMessage b r u w) = None"
    using g assms by (rule reactDeleteMessage_refused_quietly)
  show "replies (snd (reactDeleteMessage b r u w)) = replies w"
    using reactDeleteMessage_refused[OF g] by simp
  show "MessageDelete (message_id (reaction_message r)) \<notin> set (new_events w (snd (reactDeleteMessage b r u w)))"
    using reactDeleteMessage_refused[OF g] by auto
  show "DeleteMessage (message_id (reaction_message r)) \<notin> set (new_events w (snd (reactDeleteMessage b r u w)))"
    using reactDeleteMessage_refused[OF g] by auto
next
  assume a: "deletion_guard b r u w \<and> reactDeleteMessage b r u w = (None, w')"
  then show gone: "lookupRecordByMessage (replies w') (message_id (reaction_message r)) = None"
    using reactDeleteMessage_completed by blast
  from a have same: "io_fault w' = io_fault w"
    using reactDeleteMessage_completed by blast
  show g': "\<not> deletion_guard b r u w'"
    using gone by (simp add: deletion_guard_def)
  show "fst (reactDeleteMessage b r u w') = None"
    using g' assms same by (intro reactDeleteMessage_refused_quietly) simp_all
  show "replies (snd (reactDeleteMessage b r u w')) = replies w'"
    using reactDeleteMessage_refused[OF g'] by simp
  show "MessageDelete (message_id (reaction_message r)) \<notin> set (new_events w' (snd (reactDeleteMessage b r u w')))"
    using reactDeleteMessage_refused[OF g'] by auto
  show "DeleteMessage (message_id (reaction_message r)) \<notin> set (new_events w' (snd (reactDeleteMessage b r u w')))"
    using reactDeleteMessage_refused[OF g'] by auto
qed

theorem deletion_iff_guards_witness:
  "deletion_guard example_bot example_reaction example_author example_world_replied \<and>
   MessageDelete 101 \<in> set (new_events example_world_replied
      (snd (reactDeleteMessage example_bot example_reaction example_author example_world_replied))) \<and>
   fst (reactDeleteMessage example_bot example_reaction example_author example_world_replied) = None \<and>
   fst (reactDeleteMessage example_bot example_reaction example_author
      (snd (reactDeleteMessage example_bot example_reaction example_author example_world_replied))) = None \<and>
   MessageDelete 101 \<notin> set (new_events
      (snd (reactDeleteMessage example_bot example_reaction example_author example_world_replied))
      (snd (reactDeleteMessage example_bot example_reaction example_author
         (snd (reactDeleteMessage example_bot example_reaction example_author example_world_replied)))))"
proof -
  let ?w' = "snd (reactDeleteMessage example_bot example_reaction example_author example_world_replied)"
  have l: "\<forall>n. io_fault example_world_replied n
             (GetMessageAuthor (message_id (reaction_message example_reaction))) = None"
    by (simp add: example_defs)
  have g: "deletion_guard example_bot example_reaction example_author example_world_replied"
    by (simp add: deletion_guard_def example_defs lookupRecordByMessage_def record_matches_def
          register_def constructor_def)
  have f1: "fst (reactDeleteMessage example_bot example_reaction example_author example_world_replied) = None"
    using g by (simp add: reactDeleteMessage_cases Let_def example_world_replied_def example_world_def)
  then have f: "reactDeleteMessage example_bot example_reaction example_author example_world_replied
           = (None, ?w')"
    by (metis prod.collapse)
  have m: "message_id (reaction_message example_reaction) = 101"
    by (simp add: example_defs)
  note T = deletion_iff_guards[OF l, of example_bot example_author ?w', unfolded m]
  show ?thesis
    using g f f1 T by blast
qed

text \<open>
  C3. A new bot is not ready. While the flag \<open>ready\<close> is false, a message event and a
  reaction event are dropped: the handler returns without a fault and the world is as it
  was, so nothing is sent, recorded, deleted, logged or called. \<open>startup\<close> sets the flag
  exactly when loading the rules did not fail.
\<close>

theorem not_ready_drops_events:
  "\<not> ready (constructor cfg) \<and>
   (\<not> ready b \<longrightarrow>
      on_message b m w = (None, w) \<and> on_messageReactionAdd b r u w = (None, w) \<and>
      ready (fst (snd (startup b w))) = (fst (startup b w) = None))"
  by (simp add: on_message_def on_messageReactionAdd_def constructor_def startup_ready)

theorem not_ready_drops_events_witness:
  "\<not> ready (constructor example_config) \<and>
   on_message (constructor example_config) (example_message (js ''!greet'')) example_world
     = (None, example_world) \<and>
   on_messageReactionAdd (constructor example_config) example_reaction example_author example_world_replied
     = (None, example_world_replied)"
  using not_ready_drops_events[of example_config "constructor example_config"
          "example_message (js ''!greet'')" example_world]
        not_ready_drops_events[of example_config "constructor example_config" _
          example_world_replied example_reaction example_author]
  by (simp add: constructor_def)

text \<open>
  C4. For a message whose author is not a bot, what \<open>parse\<close> adds to the trace is what
  \<open>x2iExec\<close> adds, followed by what \<open>command\<close> adds when it runs: events of the
  transformation path first, events of command routing after them, and no event is of both
  kinds. When the rendered text is not empty, command routing adds nothing at all; when it
  is empty, the transformation path has done no more than the search, and \<open>command\<close>
  runs in the world \<open>x2iExec\<close> left.
\<close>

theorem parse_transformation_then_commands:
  assumes "\<not> user_bot (author m)"
  shows "\<exists>xs ys.
           new_events w (snd (x2iExec b m w)) = xs \<and>
           new_events w (snd (parse b m w)) = xs @ ys \<and>
           (\<forall>e \<in> set xs. is_x2i_event e \<and> \<not> is_command_event e) \<and>
           (\<forall>e \<in> set ys. is_command_event e \<and> \<not> is_x2i_event e) \<and>
           fst (x2iExec b m w) = (x2i_results b m \<noteq> []) \<and>
           (x2i_results b m \<noteq> [] \<longrightarrow> ys = [] \<and> parse b m w = (None, snd (x2iExec b m w))) \<and>
           (x2i_results b m = [] \<longrightarrow>
              (xs = [] \<or> xs = [Search (content m)]) \<and>
              parse b m w = command b m (snd (x2iExec b m w)))"
proof -
  obtain p w1 where x: "x2iExec b m w = (p, w1)" by (cases "x2iExec b m w")
  obtain xs where xs: "trace w1 = trace w @ xs" "\<forall>e \<in> set xs. is_x2i_event e"
    "\<not> p \<longrightarrow> xs = [] \<or> xs = [Search (content m)]"
    using x2iExec_events[of b m w] x by auto
  have p: "p = (x2i_results b m \<noteq> [])"
    using x2iExec_parsed[of b m w] x by simp
  show ?thesis
  proof (cases p)
    case True
    then have "parse b m w = (None, w1)"
      using assms x by (simp add: parse_def)
    then show ?thesis
      using True x xs p events_disjoint
      by (intro exI[of _ xs] exI[of _ "[]"]) auto
  next
    case False
    then have c: "parse b m w = command b m w1"
      using assms x by (simp add: parse_def)
    obtain ys where ys: "trace (snd (command b m w1)) = trace w1 @ ys" "\<forall>e \<in> set ys. is_command_event e"
      using command_events by blast
    show ?thesis
      using False x xs p ys c events_disjoint
      by (intro exI[of _ xs] exI[of _ ys]) auto
  qed
qed

theorem parse_transformation_then_commands_witness:
  "new_events example_world (snd (parse example_bot (example_message (js ''!greet'')) example_world))
   = [Search (js ''!greet''), Call (js ''greet'') (example_message (js ''!greet'')) [[]],
      Log (js ''success:command/greet'')] \<and>
   parse example_bot (example_message (js ''ab'')) example_world
   = (None, snd (x2iExec example_bot (example_message (js ''ab'')) example_world)) \<and>
   new_events example_world (snd (x2iExec example_bot (example_message (js ''ab'')) example_world))
   = [Search (js ''ab''), Send 2 (Text (js ''ab'')), React 101 (js ''x''),
      AddMessage (example_message (js ''ab'')) [101], Log (js ''success:x2i/all'')]"
proof -
  have h: "\<not> user_bot (author (example_message t))" for t
    by (simp add: example_defs)
  have r: "x2i_results example_bot (example_message (js ''ab'')) \<noteq> []"
    by (simp add: x2i_results_def example_defs register_def constructor_def js_def)
  have greet: "new_events example_world
      (snd (parse example_bot (example_message (js ''!greet'')) example_world))
   = [Search (js ''!greet''), Call (js ''greet'') (example_message (js ''!greet'')) [[]],
      Log (js ''success:command/greet'')]"
    by (simp add: parse_def x2iExec_def command_def prefixRegex_match_def has_property_def
          get_property_def example_defs register_def constructor_def js_def Let_def
          isWhiteSpace_def isLineTerminator_def space_def emit_def log_def new_events_def)
  have ab: "new_events example_world (snd (x2iExec example_bot (example_message (js ''ab'')) example_world))
     = [Search (js ''ab''), Send 2 (Text (js ''ab'')), React 101 (js ''x''),
        AddMessage (example_message (js ''ab'')) [101], Log (js ''success:x2i/all'')]"
    by (simp add: x2iExec_def example_defs register_def constructor_def js_def Let_def
          channel_send_def attempt_def addMessage_def message_react_def emit_def log_def new_events_def)
  show ?thesis
    using greet ab r parse_transformation_then_commands[OF h, of example_world example_bot "js ''ab''"]
    by auto
qed

text \<open>
  C5. Routing is not silent for every token that is not registered. With no command
  registered at all, the text \<open>!__defineGetter__\<close> passes the test
  \<open>cmd in this.commands\<close>, because every object inherits a property of that name; the
  inherited function is called as if it were a handler, it throws, and a command error is
  logged.
\<close>

theorem command_runs_inherited_property:
  "commands (constructor example_config) (js ''__defineGetter__'') = None \<and>
   has_property (commands (constructor example_config)) (js ''__defineGetter__'') \<and>
   new_events example_world
     (snd (command (constructor example_config) (example_message (js ''!__defineGetter__'')) example_world))
   = [Call (js ''__defineGetter__'') (example_message (js ''!__defineGetter__'')) [[]],
      Log (js ''error:command/__defineGetter__'')]"
  by (simp add: command_def prefixRegex_match_def has_property_def get_property_def
        objectPrototype_def typeError_def example_defs constructor_def js_def Let_def
        isWhiteSpace_def isLineTerminator_def space_def emit_def log_def new_events_def)

text \<open>
  C6. A fault whose message contains \<open>ECONNRESET\<close>, handed to the error handler, is
  only logged: no error record is written and the exit status is as it was. Any other
  fault handed to the error handler, and any fault handed to the handler of uncaught
  exceptions, is logged, written to the journal as exactly one new error record, and then
  the process exits with status 1, provided the journal accepts the record.
\<close>

theorem crash_handling:
  "(connection_reset err \<longrightarrow>
      new_events w (on_error b err w) = [Log (js ''warn'')] \<and>
      errors (on_error b err w) = errors w \<and> exited (on_error b err w) = exited w) \<and>
   ((\<forall>n. io_fault w n (AddError err) = None) \<longrightarrow>
      (\<not> connection_reset err \<longrightarrow>
         new_events w (on_error b err w) = [Log (js ''error''), AddError err, Exit 1] \<and>
         errors (on_error b err w) = errors w @ [\<lparr>error_text = err, notified = False\<rparr>] \<and>
         exited (on_error b err w) = Some 1) \<and>
      new_events w (snd (on_uncaughtException b err w)) = [Log (js ''error''), AddError err, Exit 1] \<and>
      errors (snd (on_uncaughtException b err w)) = errors w @ [\<lparr>error_text = err, notified = False\<rparr>] \<and>
      exited (snd (on_uncaughtException b err w)) = Some 1)"
  by (simp add: on_error_def on_uncaughtException_def panicResponsibly_recorded)

theorem crash_handling_witness:
  "connection_reset (ErrorObject (Some (js ''read ECONNRESET''))) \<and>
   new_events example_world
     (on_error example_bot (ErrorObject (Some (js ''read ECONNRESET''))) example_world)
     = [Log (js ''warn'')] \<and>
   errors (on_error example_bot (ErrorObject (Some (js ''read ECONNRESET''))) example_world) = [] \<and>
   exited (on_error example_bot (ErrorObject (Some (js ''read ECONNRESET''))) example_world) = None \<and>
   errors (on_error example_bot (ErrorObject (Some (js ''boom''))) example_world)
     = [\<lparr>error_text = ErrorObject (Some (js ''boom'')), notified = False\<rparr>] \<and>
   exited (on_error example_bot (ErrorObject (Some (js ''boom''))) example_world) = Some 1"
proof -
  have r: "connection_reset (ErrorObject (Some (js ''read ECONNRESET'')))"
    by (simp add: connection_reset_def js_def)
  have n: "\<not> connection_reset (ErrorObject (Some (js ''boom'')))"
    by (simp add: connection_reset_def js_def)
  have a: "\<forall>n. io_fault example_world n (AddError (ErrorObject (Some (js ''boom'')))) = None"
    by (simp add: example_defs)
  show ?thesis
    using r n a
      crash_handling[of "ErrorObject (Some (js ''read ECONNRESET''))" example_world example_bot]
      crash_handling[of "ErrorObject (Some (js ''boom''))" example_world example_bot]
    by (simp add: example_world_def)
qed

text \<open>
  C7. When the three guards hold and the lookup of the origin author does not fail,
  \<open>reactDeleteMessage\<close> first asks the transport to delete the message reacted to,
  and only then, and only if the transport did not fail, asks the store to delete the
  record. The message reacted to is the only message it deletes from the transport:
  another reply message of the same record is not deleted. When the transport fails the
  reply records are left as they are.
\<close>

theorem reacted_message_deleted_before_record:
  assumes "deletion_guard b r u w"
      and "\<forall>n. io_fault w n (GetMessageAuthor (message_id (reaction_message r))) = None"
  shows "new_events w (snd (reactDeleteMessage b r u w)) =
           [GetMessageAuthor (message_id (reaction_message r)),
            MessageDelete (message_id (reaction_message r))] @
           (if io_fault w (Suc (length (trace w))) (MessageDelete (message_id (reaction_message r))) = None
            then [DeleteMessage (message_id (reaction_message r))] else []) \<and>
         (\<forall>i. MessageDelete i \<in> set (new_events w (snd (reactDeleteMessage b r u w)))
               \<longrightarrow> i = message_id (reaction_message r)) \<and>
         (io_fault w (Suc (length (trace w))) (MessageDelete (message_id (reaction_message r))) \<noteq> None
            \<longrightarrow> replies (snd (reactDeleteMessage b r u w)) = replies w)"
proof -
  have ev: "new_events w (snd (reactDeleteMessage b r u w)) =
           [GetMessageAuthor (message_id (reaction_message r)),
            MessageDelete (message_id (reaction_message r))] @
           (if io_fault w (Suc (length (trace w))) (MessageDelete (message_id (reaction_message r))) = None
            then [DeleteMessage (message_id (reaction_message r))] else [])"
    by (rule reactDeleteMessage_granted[OF assms])
  have only: "\<forall>i. MessageDelete i \<in> set (new_events w (snd (reactDeleteMessage b r u w)))
               \<longrightarrow> i = message_id (reaction_message r)"
    by (simp add: ev)
  have kept: "io_fault w (Suc (length (trace w))) (MessageDelete (message_id (reaction_message r))) \<noteq> None
            \<longrightarrow> replies (snd (reactDeleteMessage b r u w)) = replies w"
    using assms by (auto simp: reactDeleteMessage_cases Let_def split: option.splits)
  from ev only kept show ?thesis by blast
qed

theorem reacted_message_deleted_before_record_witness:
  "new_events example_world_two_parts
      (snd (reactDeleteMessage example_bot example_reaction example_author example_world_two_parts))
   = [GetMessageAuthor 101, MessageDelete 101, DeleteMessage 101] \<and>
   MessageDelete 103 \<notin> set (new_events example_world_two_parts
      (snd (reactDeleteMessage example_bot example_reaction example_author example_world_two_parts)))"
proof -
  have l: "\<forall>n. io_fault example_world_two_parts n
             (GetMessageAuthor (message_id (reaction_message example_reaction))) = None"
    by (simp add: two_parts_io)
  have m: "message_id (reaction_message example_reaction) = 101"
    by (simp add: example_defs)
  have "new_events example_world_two_parts
      (snd (reactDeleteMessage example_bot example_reaction example_author example_world_two_parts))
   = [GetMessageAuthor 101, MessageDelete 101, DeleteMessage 101]"
    using reacted_message_deleted_before_record[OF example_two_parts_guard l, THEN conjunct1]
    by (simp add: m two_parts_io)
  then show ?thesis by simp
qed

text \<open>
  C7 as it is worded, with every reply message of the record deleted before the record,
  fails on the code. The example bot has answered \<open>abcde\<close> in two parts, the messages
  101 and 103 of one record. The origin author reacts to 101 with the configured emoji:
  the guards hold, 101 is deleted from the transport, the record is deleted from the
  store, and 103 is never deleted.
\<close>

theorem reply_messages_deleted_first_counterexample:
  "sent_parts (trace example_world_two_parts) = [Text (js ''abc'' @ [ellipsis]), Text (js ''too long'')] \<and>
   map reply_message_ids (replies example_world_two_parts) = [[101, 103]] \<and>
   deletion_guard example_bot example_reaction example_author example_world_two_parts \<and>
   new_events example_world_two_parts
     (snd (reactDeleteMessage example_bot example_reaction example_author example_world_two_parts))
   = [GetMessageAuthor 101, MessageDelete 101, DeleteMessage 101] \<and>
   replies (snd (reactDeleteMessage example_bot example_reaction example_author example_world_two_parts)) = [] \<and>
   \<not> reply_messages_deleted_first [101, 103] 101
       (new_events example_world_two_parts
          (snd (reactDeleteMessage example_bot example_reaction example_author example_world_two_parts)))"
proof -
  have "\<not> reply_messages_deleted_first [101, 103] 101
          [GetMessageAuthor 101, MessageDelete 101, DeleteMessage 101]"
    by (simp add: reply_messages_deleted_first_def)
  then show ?thesis
    using example_two_parts_guard example_two_parts_run
    by (simp add: two_parts_trace two_parts_replies)
qed

text \<open>
  C8. With the flag for structured replies off, a structured message is degraded to plain
  text: the bold title line when the title is present, the description line when the
  description is present, a blank line, and the field bodies, each preceded by its bold
  header line when headers are kept, with one blank line between two neighbouring fields.
  With the flag on, the structured message is passed through unchanged.
\<close>

theorem embed_output_degrades_to_plain_lines:
  "embed_output False m keep = Text (plain_rendering m keep) \<and> embed_output True m keep = Rich m"
  by (simp add: embed_output_def strip_lines)

text \<open>
  C9. For a message whose author is a bot account, \<open>parse\<close> returns at once: the world
  is as it was, so nothing is searched, sent, recorded or called, whether the message comes
  through the handler of message events or not.
\<close>

theorem parse_ignores_bot_authors:
  assumes "user_bot (author m)"
  shows "parse b m w = (None, w) \<and> on_message b m w = (None, w)"
  using assms by (simp add: parse_def on_message_def)

theorem parse_ignores_bot_authors_witness:
  "parse example_bot example_reply example_world = (None, example_world) \<and>
   on_message example_bot example_reply example_world = (None, example_world)"
proof -
  have "user_bot (author example_reply)"
    by (simp add: example_defs)
  from parse_ignores_bot_authors[OF this] show ?thesis .
qed

text \<open>
  C10. For a registered command whose text is the prefix and the command token alone, or
  these followed by one space, the handler is called once with exactly one argument token,
  the empty string.
\<close>

theorem bare_command_gets_one_empty_token:
  assumes "commands b cmd = Some cb"
      and "\<forall>c \<in> set cmd. \<not> isWhiteSpace c"
      and "content m = prefix (config b) @ cmd \<or> content m = prefix (config b) @ cmd @ [space]"
  shows "new_events w (snd (command b m w)) =
           [Call cmd m [[]],
            Log ((if cb m [[]] = None then js ''success:command/'' else js ''error:command/'') @ cmd)]"
  using assms(1) prefixRegex_match_bare[OF assms(2,3)]
  by (simp add: command_def has_property_def get_property_def Let_def split: option.splits)

theorem bare_command_gets_one_empty_token_witness:
  "new_events example_world (snd (command example_bot (example_message (js ''!greet'')) example_world))
   = [Call (js ''greet'') (example_message (js ''!greet'')) [[]], Log (js ''success:command/greet'')]"
proof -
  have c: "commands example_bot (js ''greet'') = Some (\<lambda>m args. None)"
    by (simp add: example_defs register_def constructor_def)
  have ws: "\<forall>c \<in> set (js ''greet''). \<not> isWhiteSpace c"
    by (simp add: js_def isWhiteSpace_def)
  have t: "content (example_message (js ''!greet'')) = prefix (config example_bot) @ js ''greet'' \<or>
           content (example_message (js ''!greet'')) = prefix (config example_bot) @ js ''greet'' @ [space]"
    by (simp add: example_defs register_def constructor_def js_def)
  show ?thesis
    using bare_command_gets_one_empty_token[OF c ws t, of example_world]
    by (simp add: js_def)
qed

end
